theory Spec2Isabelle
  imports Main "HOL-Library.Multiset" "HOL-Library.Product_Lexorder"
begin

section \<open>The friendship collection of server/friendship/collection.ts\<close>

text \<open>
  \<open>FriendshipCollection\<close> is a class of six static methods over a document collection
  (\<open>FriendshipModel\<close>) and a sibling accessor for users (\<open>UserCollection\<close>). The
  collection is modelled as the list of its documents in store order, every method as a
  function that takes the collection and returns its result together with the
  collection it leaves behind. A rejected promise is a value \<open>Inl e\<close>.
\<close>

subsection \<open>Documents\<close>

text \<open>
  Identifiers (\<open>Types.ObjectId | string\<close> in the source) are opaque; they are
  compared for equality only. A date is the number of milliseconds of a \<open>Date\<close>.
  The field \<open>_id\<close> of a document is written \<open>doc_id\<close>.
\<close>

type_synonym oid = nat
type_synonym date = int

text \<open>
  Modelled from the spec: the schema of \<open>./model\<close> is not part of the sources. A
  friendship document has a store-assigned identifier, the identifiers of its two
  parties and the timestamp set at creation. \<open>dateCreated\<close> is optional so that
  "non-null" is a statement about a document.
\<close>

record friendship =
  doc_id :: oid
  userOneId :: oid
  userTwoId :: oid
  dateCreated :: "date option"

type_synonym collection = "friendship list"

text \<open>
  Modelled from the spec: a user document of \<open>../user\<close>, of which only the
  identifier and the name matter here.
\<close>

record user =
  user_id :: oid
  username :: string

datatype error = UserNotFound | DuplicateKey

text \<open>
  Modelled from the spec: \<open>../user/collection\<close> is not part of the sources. The
  accessor \<open>findOneByUsername\<close> gives the user document of a name and fails when there
  is none; \<open>findUserById\<close> is the lookup behind \<open>populate\<close>, which puts \<open>null\<close> where
  no user has the identifier. Both are parameters of the model.
\<close>

record user_store =
  findOneByUsername :: "string \<Rightarrow> error + user"
  findUserById :: "oid \<Rightarrow> user option"

text \<open>A friendship document after \<open>populate(['userOneId', 'userTwoId'])\<close>.\<close>

record populated_friendship =
  p_doc_id :: oid
  p_userOneId :: "user option"
  p_userTwoId :: "user option"
  p_dateCreated :: "date option"

subsection \<open>The store's queries\<close>

text \<open>
  The filters the source passes to the store: \<open>{}\<close>, \<open>{_id: x}\<close>, \<open>{userOneId: x}\<close>,
  \<open>{userTwoId: x}\<close> and \<open>{$or: [...]}\<close>.
\<close>

datatype query =
  MatchAll
  | ById oid
  | ByUserOneId oid
  | ByUserTwoId oid
  | OrQ "query list"

fun matches :: "query \<Rightarrow> friendship \<Rightarrow> bool" where
  "matches MatchAll d = True"
| "matches (ById x) d = (doc_id d = x)"
| "matches (ByUserOneId x) d = (userOneId d = x)"
| "matches (ByUserTwoId x) d = (userTwoId d = x)"
| "matches (OrQ qs) d = list_ex (\<lambda>q. matches q d) qs"

text \<open>\<open>Model.find(q)\<close>: the matching documents, in store order.\<close>

definition find_docs :: "query \<Rightarrow> collection \<Rightarrow> friendship list" where
  "find_docs q fs = filter (matches q) fs"

text \<open>\<open>Model.findOne(q)\<close>: the first matching document, or \<open>null\<close>.\<close>

definition find_one_doc :: "query \<Rightarrow> collection \<Rightarrow> friendship option" where
  "find_one_doc q fs = List.find (matches q) fs"

text \<open>
  The acknowledgment of a delete: an object \<open>{acknowledged, deletedCount}\<close>. The
  store answers every delete with such an object, so the awaited value is \<open>Some\<close> of
  it, never \<open>null\<close>.
\<close>

record delete_result =
  acknowledged :: bool
  deletedCount :: nat

fun remove_first :: "query \<Rightarrow> collection \<Rightarrow> collection" where
  "remove_first q [] = []"
| "remove_first q (d # ds) = (if matches q d then ds else d # remove_first q ds)"

text \<open>\<open>Model.deleteOne(q)\<close>: removes the first matching document, if any.\<close>

definition delete_one_doc :: "query \<Rightarrow> collection \<Rightarrow> delete_result option \<times> collection" where
  "delete_one_doc q fs =
     (Some \<lparr>acknowledged = True,
            deletedCount = (if list_ex (matches q) fs then 1 else 0)\<rparr>,
      remove_first q fs)"

text \<open>\<open>Model.deleteMany(q)\<close>: removes every matching document.\<close>

definition delete_many_docs :: "query \<Rightarrow> collection \<Rightarrow> delete_result option \<times> collection" where
  "delete_many_docs q fs =
     (Some \<lparr>acknowledged = True, deletedCount = length (filter (matches q) fs)\<rparr>,
      filter (\<lambda>d. \<not> matches q d) fs)"

text \<open>
  \<open>document.save()\<close> of a new document: one insert at the end of the collection. The
  store keeps \<open>_id\<close> unique and rejects a document whose identifier it already holds.
\<close>

definition save :: "friendship \<Rightarrow> collection \<Rightarrow> error + collection" where
  "save d fs =
     (if doc_id d \<in> set (map doc_id fs) then Inl DuplicateKey else Inr (fs @ [d]))"

text \<open>\<open>document.populate(['userOneId', 'userTwoId'])\<close>.\<close>

definition populate :: "user_store \<Rightarrow> friendship \<Rightarrow> populated_friendship" where
  "populate us d =
     \<lparr>p_doc_id = doc_id d,
      p_userOneId = findUserById us (userOneId d),
      p_userTwoId = findUserById us (userTwoId d),
      p_dateCreated = dateCreated d\<rparr>"

subsection \<open>Sorting by a named field\<close>

text \<open>
  \<open>query.sort({name: dir})\<close> orders documents by the value they hold under a field
  name. A document holds nothing under a name that is not one of its fields, and the
  store orders an absent value as \<open>null\<close>, before every other value.
\<close>

datatype fvalue = VId oid | VDate date

definition field_of :: "string \<Rightarrow> friendship \<Rightarrow> fvalue option" where
  "field_of name d =
     (if name = ''_id'' then Some (VId (doc_id d))
      else if name = ''userOneId'' then Some (VId (userOneId d))
      else if name = ''userTwoId'' then Some (VId (userTwoId d))
      else if name = ''dateCreated'' then map_option VDate (dateCreated d)
      else None)"

text \<open>The store's order of values: \<open>null\<close>, then identifiers, then dates.\<close>

fun sort_rank :: "fvalue option \<Rightarrow> nat \<times> int" where
  "sort_rank None = (0, 0)"
| "sort_rank (Some (VId x)) = (1, int x)"
| "sort_rank (Some (VDate t)) = (2, t)"

definition goes_before :: "string \<Rightarrow> int \<Rightarrow> friendship \<Rightarrow> friendship \<Rightarrow> bool" where
  "goes_before name dir a b =
     (if dir < 0 then sort_rank (field_of name b) \<le> sort_rank (field_of name a)
      else sort_rank (field_of name a) \<le> sort_rank (field_of name b))"

text \<open>
  The store leaves the order of documents of equal value open; the model keeps them in
  store order (an insertion sort that never moves a document past an equal one).
\<close>

fun place :: "string \<Rightarrow> int \<Rightarrow> friendship \<Rightarrow> friendship list \<Rightarrow> friendship list" where
  "place name dir d [] = [d]"
| "place name dir d (e # es) =
     (if goes_before name dir d e then d # e # es else e # place name dir d es)"

fun sort_docs :: "string \<Rightarrow> int \<Rightarrow> friendship list \<Rightarrow> friendship list" where
  "sort_docs name dir [] = []"
| "sort_docs name dir (d # ds) = place name dir d (sort_docs name dir ds)"

text \<open>A list of documents is in descending order of the values under a field name.\<close>

definition descending_by :: "string \<Rightarrow> friendship list \<Rightarrow> bool" where
  "descending_by name ds =
     sorted_wrt (\<lambda>a b. sort_rank (field_of name b) \<le> sort_rank (field_of name a)) ds"

subsection \<open>The six operations\<close>

text \<open>
  \<open>addOne\<close>: \<open>now\<close> is the value of \<open>new Date()\<close> and \<open>newId\<close> the identifier the
  new document is given.
\<close>

definition addOne ::
  "user_store \<Rightarrow> date \<Rightarrow> oid \<Rightarrow> oid \<Rightarrow> oid \<Rightarrow> collection
     \<Rightarrow> error + (populated_friendship \<times> collection)" where
  "addOne us now newId uidOne uidTwo fs =
     (let friendship = \<lparr>doc_id = newId, userOneId = uidOne, userTwoId = uidTwo,
                         dateCreated = Some now\<rparr>
      in case save friendship fs of
           Inl e \<Rightarrow> Inl e
         | Inr fs' \<Rightarrow> Inr (populate us friendship, fs'))"

definition findOne :: "oid \<Rightarrow> collection \<Rightarrow> friendship option" where
  "findOne friendshipId fs = find_one_doc (ById friendshipId) fs"

definition findAll :: "collection \<Rightarrow> friendship list" where
  "findAll fs = sort_docs ''dateFriendshiped'' (- 1) (find_docs MatchAll fs)"

definition findAllFriendshipsOfUser ::
  "user_store \<Rightarrow> string \<Rightarrow> collection \<Rightarrow> error + friendship list" where
  "findAllFriendshipsOfUser us name fs =
     (case findOneByUsername us name of
        Inl e \<Rightarrow> Inl e
      | Inr u \<Rightarrow>
          Inr (find_docs (OrQ [ByUserOneId (user_id u), ByUserTwoId (user_id u)]) fs))"

definition deleteOne :: "oid \<Rightarrow> collection \<Rightarrow> bool \<times> collection" where
  "deleteOne friendshipId fs =
     (let (deletedFriendRequest, fs') = delete_one_doc (ById friendshipId) fs
      in (deletedFriendRequest \<noteq> None, fs'))"

definition deleteAllFriendshipOfUser ::
  "user_store \<Rightarrow> string \<Rightarrow> collection \<Rightarrow> error + collection" where
  "deleteAllFriendshipOfUser us name fs =
     (case findOneByUsername us name of
        Inl e \<Rightarrow> Inl e
      | Inr u \<Rightarrow>
          (let (r1, fs1) = delete_many_docs (ByUserOneId (user_id u)) fs;
               (r2, fs2) = delete_many_docs (ByUserTwoId (user_id u)) fs1
           in Inr fs2))"

text \<open>
  The alternative the design notes name: one delete with a filter that matches either
  role.
\<close>

definition deleteAllFriendshipOfUser_single ::
  "user_store \<Rightarrow> string \<Rightarrow> collection \<Rightarrow> error + collection" where
  "deleteAllFriendshipOfUser_single us name fs =
     (case findOneByUsername us name of
        Inl e \<Rightarrow> Inl e
      | Inr u \<Rightarrow>
          Inr (snd (delete_many_docs
                 (OrQ [ByUserOneId (user_id u), ByUserTwoId (user_id u)]) fs)))"

text \<open>The store keeps identifiers unique.\<close>

definition wf_collection :: "collection \<Rightarrow> bool" where
  "wf_collection fs = distinct (map doc_id fs)"

subsection \<open>Sample data\<close>

definition alice :: user where
  "alice = \<lparr>user_id = 1, username = ''alice''\<rparr>"

definition bob :: user where
  "bob = \<lparr>user_id = 2, username = ''bob''\<rparr>"

definition sample_users :: user_store where
  "sample_users =
     \<lparr>findOneByUsername =
        (\<lambda>n. if n = ''alice'' then Inr alice
             else if n = ''bob'' then Inr bob else Inl UserNotFound),
      findUserById =
        (\<lambda>i. if i = 1 then Some alice else if i = 2 then Some bob else None)\<rparr>"

definition sample_friendship :: "oid \<Rightarrow> oid \<Rightarrow> oid \<Rightarrow> date \<Rightarrow> friendship" where
  "sample_friendship i a b t =
     \<lparr>doc_id = i, userOneId = a, userTwoId = b, dateCreated = Some t\<rparr>"

section \<open>Properties\<close>

subsection \<open>The store\<close>

lemma matches_either:
  "matches (OrQ [ByUserOneId x, ByUserTwoId x]) = (\<lambda>d. userOneId d = x \<or> userTwoId d = x)"
  by (rule ext) simp

lemma mset_place: "mset (place name dir d ds) = add_mset d (mset ds)"
  by (induction ds) auto

lemma mset_sort_docs: "mset (sort_docs name dir ds) = mset ds"
  by (induction ds) (auto simp: mset_place)

lemma set_place: "set (place name dir d ds) = insert d (set ds)"
  by (induction ds) auto

lemma descending_place:
  "descending_by name ds \<Longrightarrow> descending_by name (place name (- 1) d ds)"
  unfolding descending_by_def
proof (induction ds)
  case Nil
  then show ?case by simp
next
  case (Cons e es)
  show ?case
  proof (cases "goes_before name (- 1) d e")
    case True
    then have "sort_rank (field_of name e) \<le> sort_rank (field_of name d)"
      by (simp add: goes_before_def)
    with Cons.prems True show ?thesis by fastforce
  next
    case False
    then have "sort_rank (field_of name d) \<le> sort_rank (field_of name e)"
      by (simp add: goes_before_def)
    with Cons False show ?thesis by (auto simp: set_place)
  qed
qed

lemma descending_sort_docs: "descending_by name (sort_docs name (- 1) ds)"
proof (induction ds)
  case Nil
  show ?case by (simp add: descending_by_def)
next
  case (Cons d ds)
  then show ?case by (simp add: descending_place)
qed

lemma field_of_dateFriendshiped: "field_of ''dateFriendshiped'' d = None"
  by (simp add: field_of_def)

lemma place_absent_key:
  "place ''dateFriendshiped'' dir d ds = d # ds"
  by (cases ds) (simp_all add: goes_before_def field_of_dateFriendshiped)

lemma sort_docs_absent_key: "sort_docs ''dateFriendshiped'' dir ds = ds"
  by (induction ds) (simp_all add: place_absent_key)

lemma find_docs_all: "find_docs MatchAll fs = fs"
  by (simp add: find_docs_def)

lemma descending_absent_key: "descending_by ''dateFriendshiped'' ds"
  by (induction ds) (simp_all add: descending_by_def field_of_dateFriendshiped)


lemma remove_first_fresh:
  "x \<notin> set (map doc_id fs) \<Longrightarrow> remove_first (ById x) fs = fs"
  by (induction fs) auto

lemma remove_first_split:
  "x \<notin> set (map doc_id pre) \<Longrightarrow> doc_id d = x \<Longrightarrow>
   remove_first (ById x) (pre @ d # post) = pre @ post"
  by (induction pre) auto

lemma remove_first_clears:
  "distinct (map doc_id fs) \<Longrightarrow> x \<notin> set (map doc_id (remove_first (ById x) fs))"
  by (induction fs) auto

lemma remove_first_distinct:
  "distinct (map doc_id fs) \<Longrightarrow> distinct (map doc_id (remove_first q fs))"
proof (induction fs)
  case Nil
  then show ?case by simp
next
  case (Cons d ds)
  have "set (remove_first q ds) \<subseteq> set ds" for ds
    by (induction ds) auto
  with Cons show ?case by auto
qed

lemma find_by_id_None:
  "(List.find (matches (ById x)) fs = None) = (x \<notin> set (map doc_id fs))"
  by (induction fs) auto

lemma find_by_id_Some:
  "List.find (matches (ById x)) fs = Some d \<Longrightarrow> d \<in> set fs \<and> doc_id d = x"
  by (induction fs) (auto split: if_splits)

lemma find_by_id_unique:
  "distinct (map doc_id fs) \<Longrightarrow> d \<in> set fs \<Longrightarrow>
   List.find (matches (ById (doc_id d))) fs = Some d"
  by (induction fs) auto

lemma find_by_id_append_new:
  "x \<notin> set (map doc_id fs) \<Longrightarrow> doc_id d = x \<Longrightarrow>
   List.find (matches (ById x)) (fs @ [d]) = Some d"
  by (induction fs) auto

lemma delete_both_roles:
  "snd (delete_many_docs (ByUserTwoId x) (snd (delete_many_docs (ByUserOneId x) fs))) =
   filter (\<lambda>d. userOneId d \<noteq> x \<and> userTwoId d \<noteq> x) fs"
  by (simp add: delete_many_docs_def conj_commute)

lemma deleteAll_resolved:
  "findOneByUsername us name = Inr u \<Longrightarrow>
   deleteAllFriendshipOfUser us name fs =
     Inr (filter (\<lambda>d. userOneId d \<noteq> user_id u \<and> userTwoId d \<noteq> user_id u) fs)"
  by (simp add: deleteAllFriendshipOfUser_def delete_many_docs_def conj_commute)

lemma findAllOfUser_resolved:
  "findOneByUsername us name = Inr u \<Longrightarrow>
   findAllFriendshipsOfUser us name fs =
     Inr (filter (\<lambda>d. userOneId d = user_id u \<or> userTwoId d = user_id u) fs)"
  by (simp add: findAllFriendshipsOfUser_def find_docs_def matches_either)

lemma addOne_fresh:
  "newId \<notin> set (map doc_id fs) \<Longrightarrow>
   addOne us now newId a b fs =
     Inr (populate us \<lparr>doc_id = newId, userOneId = a, userTwoId = b, dateCreated = Some now\<rparr>,
          fs @ [\<lparr>doc_id = newId, userOneId = a, userTwoId = b, dateCreated = Some now\<rparr>])"
  by (simp add: addOne_def save_def Let_def)

lemma addOne_Inr:
  "addOne us now newId a b fs = Inr (p, fs') \<Longrightarrow>
   newId \<notin> set (map doc_id fs) \<and>
   fs' = fs @ [\<lparr>doc_id = newId, userOneId = a, userTwoId = b, dateCreated = Some now\<rparr>]"
  by (auto simp: addOne_def save_def Let_def split: if_splits)

subsection \<open>Unique identifiers\<close>

text \<open>
  The empty collection has unique identifiers, and every operation that changes the
  collection keeps them unique.
\<close>

lemma wf_collection_empty: "wf_collection []"
  by (simp add: wf_collection_def)

lemma wf_collection_addOne:
  "wf_collection fs \<Longrightarrow> addOne us now newId a b fs = Inr (p, fs') \<Longrightarrow> wf_collection fs'"
  by (auto simp: wf_collection_def dest!: addOne_Inr)

lemma wf_collection_deleteOne:
  "wf_collection fs \<Longrightarrow> wf_collection (snd (deleteOne i fs))"
  by (simp add: wf_collection_def deleteOne_def delete_one_doc_def remove_first_distinct)

lemma wf_collection_deleteAll:
  "wf_collection fs \<Longrightarrow> deleteAllFriendshipOfUser us name fs = Inr fs' \<Longrightarrow>
   wf_collection fs'"
  by (auto simp: wf_collection_def deleteAllFriendshipOfUser_def delete_many_docs_def
      distinct_map_filter split: sum.splits)

subsection \<open>The operations\<close>

text \<open>
  C1. When the user accessor resolves the name to a user \<open>u\<close>,
  \<open>findAllFriendshipsOfUser\<close> returns exactly the documents of the collection in which
  the identifier of \<open>u\<close> is \<open>userOneId\<close> or \<open>userTwoId\<close>: each such document, in
  store order, and no document in which the identifier is neither party.
\<close>

theorem findAllFriendshipsOfUser_exact:
  assumes "findOneByUsername us name = Inr u"
  shows "\<exists>rs. findAllFriendshipsOfUser us name fs = Inr rs \<and>
           rs = filter (\<lambda>d. userOneId d = user_id u \<or> userTwoId d = user_id u) fs \<and>
           (\<forall>d. (d \<in> set rs) =
                (d \<in> set fs \<and> (userOneId d = user_id u \<or> userTwoId d = user_id u)))"
  using assms by (auto simp: findAllOfUser_resolved)

theorem findAllFriendshipsOfUser_exact_witness:
  "findOneByUsername sample_users ''alice'' = Inr alice \<and>
   findAllFriendshipsOfUser sample_users ''alice''
     [sample_friendship 10 1 2 100, sample_friendship 11 2 3 200, sample_friendship 12 3 1 300]
   = Inr [sample_friendship 10 1 2 100, sample_friendship 12 3 1 300]"
proof -
  have h: "findOneByUsername sample_users ''alice'' = Inr alice"
    by (simp add: sample_users_def)
  show ?thesis
    using h findAllFriendshipsOfUser_exact [OF h,
      of "[sample_friendship 10 1 2 100, sample_friendship 11 2 3 200, sample_friendship 12 3 1 300]"]
    by (simp add: sample_friendship_def alice_def)
qed

text \<open>
  C2. \<open>addOne\<close> builds a document with the two identifiers it is given and the
  timestamp \<open>now\<close> read at the call, adds it to the collection by one insert (the
  collection afterwards is the old one followed by the new document), and returns the
  document with both references replaced by the users they name. The hypotheses are
  those of the environment: the identifier given to the new document is not yet in the
  collection, and both identifiers are identifiers of users (\<open>populate\<close> leaves
  \<open>null\<close> for an identifier no user has).
\<close>

theorem addOne_creates:
  assumes "newId \<notin> set (map doc_id fs)"
    and "findUserById us uidOne = Some a"
    and "findUserById us uidTwo = Some b"
  shows "addOne us now newId uidOne uidTwo fs =
           Inr (\<lparr>p_doc_id = newId, p_userOneId = Some a, p_userTwoId = Some b,
                  p_dateCreated = Some now\<rparr>,
                fs @ [\<lparr>doc_id = newId, userOneId = uidOne, userTwoId = uidTwo,
                        dateCreated = Some now\<rparr>])"
  using assms by (simp add: addOne_fresh populate_def)

theorem addOne_creates_witness:
  "(12::nat) \<notin> set (map doc_id [sample_friendship 10 1 3 100]) \<and>
   findUserById sample_users 1 = Some alice \<and>
   findUserById sample_users 2 = Some bob \<and>
   addOne sample_users 250 12 1 2 [sample_friendship 10 1 3 100] =
     Inr (\<lparr>p_doc_id = 12, p_userOneId = Some alice, p_userTwoId = Some bob,
            p_dateCreated = Some 250\<rparr>,
          [sample_friendship 10 1 3 100, sample_friendship 12 1 2 250])"
proof -
  have h1: "(12::nat) \<notin> set (map doc_id [sample_friendship 10 1 3 100])"
    by (simp add: sample_friendship_def)
  have h2: "findUserById sample_users 1 = Some alice"
    by (simp add: sample_users_def)
  have h3: "findUserById sample_users 2 = Some bob"
    by (simp add: sample_users_def)
  show ?thesis
    using h1 h2 h3 addOne_creates [OF h1 h2 h3, of 250]
    by (simp add: sample_friendship_def)
qed

text \<open>
  C3. \<open>findAll\<close> returns all documents of the collection. It asks for a descending
  order by \<open>dateFriendshiped\<close>, a name different from \<open>dateCreated\<close>, the attribute
  \<open>addOne\<close> writes: no document holds a value under \<open>dateFriendshiped\<close>, every
  list of documents is in descending order of it, and the documents come back in store
  order. Descending order of creation is what a sort by \<open>dateCreated\<close> would give; a
  collection made by two calls of \<open>addOne\<close> with increasing timestamps shows that
  \<open>findAll\<close> as it stands does not give it.
\<close>

theorem findAll_sort_key_mismatch:
  "mset (findAll fs) = mset fs \<and>
   findAll fs = fs \<and>
   ''dateFriendshiped'' \<noteq> ''dateCreated'' \<and>
   field_of ''dateFriendshiped'' d = None \<and>
   descending_by ''dateFriendshiped'' ds \<and>
   (addOne us now newId a b fs = Inr (p, fs') \<longrightarrow>
      (\<exists>e. fs' = fs @ [e] \<and> field_of ''dateCreated'' e = Some (VDate now))) \<and>
   descending_by ''dateCreated'' (sort_docs ''dateCreated'' (- 1) (find_docs MatchAll fs)) \<and>
   (\<exists>p1 g1 p2 g2.
      addOne sample_users 100 10 1 2 [] = Inr (p1, g1) \<and>
      addOne sample_users 200 11 2 1 g1 = Inr (p2, g2) \<and>
      \<not> descending_by ''dateCreated'' (findAll g2))"
proof -
  have all: "findAll fs = fs" for fs
    by (simp add: findAll_def find_docs_all sort_docs_absent_key)
  have written: "addOne us now newId a b fs = Inr (p, fs') \<longrightarrow>
      (\<exists>e. fs' = fs @ [e] \<and> field_of ''dateCreated'' e = Some (VDate now))"
    by (auto dest!: addOne_Inr simp: field_of_def)
  have bad: "\<not> descending_by ''dateCreated''
      (findAll [sample_friendship 10 1 2 100, sample_friendship 11 2 1 200])"
    by (simp add: all descending_by_def field_of_def sample_friendship_def)
  have reach: "\<exists>p1 g1 p2 g2.
      addOne sample_users 100 10 1 2 [] = Inr (p1, g1) \<and>
      addOne sample_users 200 11 2 1 g1 = Inr (p2, g2) \<and>
      \<not> descending_by ''dateCreated'' (findAll g2)"
    using bad by (simp add: addOne_fresh sample_friendship_def)
  show ?thesis
    using written reach
    by (simp add: all field_of_dateFriendshiped descending_absent_key descending_sort_docs)
qed

theorem findAll_sort_key_mismatch_witness:
  "addOne sample_users 100 10 1 2 [] =
     Inr (populate sample_users (sample_friendship 10 1 2 100), [sample_friendship 10 1 2 100]) \<and>
   field_of ''dateCreated'' (sample_friendship 10 1 2 100) = Some (VDate 100) \<and>
   field_of ''dateFriendshiped'' (sample_friendship 10 1 2 100) = None \<and>
   findAll [sample_friendship 10 1 2 100, sample_friendship 11 2 1 200] =
     [sample_friendship 10 1 2 100, sample_friendship 11 2 1 200]"
  using findAll_sort_key_mismatch [of "[sample_friendship 10 1 2 100, sample_friendship 11 2 1 200]"
      "sample_friendship 10 1 2 100" "[]" sample_users 100 10 1 2
      "populate sample_users (sample_friendship 10 1 2 100)" "[sample_friendship 10 1 2 100]"]
  by (simp add: addOne_fresh sample_friendship_def field_of_def)

text \<open>
  C4. \<open>deleteOne\<close> removes the document with the given identifier, if there is one,
  and returns whether the store's acknowledgment is not \<open>null\<close>. The acknowledgment
  is always an object, so the result is \<open>true\<close> for every identifier and every
  collection: when no document has the identifier the collection is unchanged, when one
  has it the first such document is removed, and the result is \<open>true\<close> in both cases.
\<close>

theorem deleteOne_always_true:
  "fst (deleteOne i fs) = True \<and>
   (i \<notin> set (map doc_id fs) \<longrightarrow> deleteOne i fs = (True, fs)) \<and>
   (\<forall>pre d post. fs = pre @ d # post \<and> doc_id d = i \<and> i \<notin> set (map doc_id pre) \<longrightarrow>
      deleteOne i fs = (True, pre @ post))"
  by (simp add: deleteOne_def delete_one_doc_def remove_first_fresh remove_first_split)

theorem deleteOne_always_true_witness:
  "deleteOne 10 [sample_friendship 10 1 2 100, sample_friendship 11 2 3 200] =
     (True, [sample_friendship 11 2 3 200]) \<and>
   deleteOne 99 [sample_friendship 10 1 2 100, sample_friendship 11 2 3 200] =
     (True, [sample_friendship 10 1 2 100, sample_friendship 11 2 3 200])"
  using deleteOne_always_true [of 10 "[sample_friendship 10 1 2 100, sample_friendship 11 2 3 200]"]
    deleteOne_always_true [of 99 "[sample_friendship 10 1 2 100, sample_friendship 11 2 3 200]"]
  by (simp add: sample_friendship_def deleteOne_def delete_one_doc_def)

text \<open>
  C5. \<open>findOne\<close> returns \<open>null\<close> when no document of the collection has the given
  identifier, and otherwise a document of the collection that has it; in a collection
  with unique identifiers that is the one document with the identifier.
\<close>

theorem findOne_by_identifier:
  "(i \<notin> set (map doc_id fs) \<longrightarrow> findOne i fs = None) \<and>
   (i \<in> set (map doc_id fs) \<longrightarrow>
      (\<exists>d. findOne i fs = Some d \<and> d \<in> set fs \<and> doc_id d = i)) \<and>
   (wf_collection fs \<and> d \<in> set fs \<longrightarrow> findOne (doc_id d) fs = Some d)"
proof -
  have "\<exists>d. List.find (matches (ById i)) fs = Some d" if "i \<in> set (map doc_id fs)"
    using that find_by_id_None [of i fs] by (cases "List.find (matches (ById i)) fs") auto
  then show ?thesis
    by (auto simp: findOne_def find_one_doc_def wf_collection_def find_by_id_None
        find_by_id_unique dest: find_by_id_Some)
qed

theorem findOne_by_identifier_witness:
  "findOne 11 [sample_friendship 10 1 2 100, sample_friendship 11 2 3 200] =
     Some (sample_friendship 11 2 3 200) \<and>
   findOne 99 [sample_friendship 10 1 2 100, sample_friendship 11 2 3 200] = None \<and>
   wf_collection [sample_friendship 10 1 2 100, sample_friendship 11 2 3 200]"
  using findOne_by_identifier [of 11 "[sample_friendship 10 1 2 100, sample_friendship 11 2 3 200]"
      "sample_friendship 11 2 3 200"]
    findOne_by_identifier [of 99 "[sample_friendship 10 1 2 100, sample_friendship 11 2 3 200]"
      "sample_friendship 11 2 3 200"]
  by (simp add: sample_friendship_def wf_collection_def)

text \<open>
  C6. After \<open>addOne\<close> with the parties \<open>a\<close> and \<open>b\<close>, \<open>findOne\<close> on the
  identifier of the returned document gives a document whose \<open>userOneId\<close> is \<open>a\<close>,
  whose \<open>userTwoId\<close> is \<open>b\<close> and whose \<open>dateCreated\<close> is not \<open>null\<close>. The
  hypothesis is that the identifier given to the new document is not yet in the
  collection.
\<close>

theorem addOne_then_findOne:
  assumes "newId \<notin> set (map doc_id fs)"
  shows "\<exists>p fs' d. addOne us now newId a b fs = Inr (p, fs') \<and> p_doc_id p = newId \<and>
           findOne (p_doc_id p) fs' = Some d \<and>
           userOneId d = a \<and> userTwoId d = b \<and> dateCreated d \<noteq> None"
  using assms
  by (simp add: addOne_fresh populate_def findOne_def find_one_doc_def find_by_id_append_new)

theorem addOne_then_findOne_witness:
  "(12::nat) \<notin> set (map doc_id [sample_friendship 10 1 3 100]) \<and>
   (\<exists>p fs'. addOne sample_users 250 12 1 2 [sample_friendship 10 1 3 100] = Inr (p, fs') \<and>
      findOne (p_doc_id p) fs' = Some (sample_friendship 12 1 2 250))"
proof -
  have h: "(12::nat) \<notin> set (map doc_id [sample_friendship 10 1 3 100])"
    by (simp add: sample_friendship_def)
  show ?thesis
    using h addOne_then_findOne [OF h, of sample_users 250 1 2]
    by (simp add: addOne_fresh sample_friendship_def populate_def findOne_def find_one_doc_def)
qed

text \<open>
  C7. In a collection with unique identifiers, \<open>findOne\<close> after \<open>deleteOne\<close> on
  the same identifier returns \<open>null\<close>.
\<close>

theorem deleteOne_then_findOne:
  assumes "wf_collection fs"
  shows "findOne i (snd (deleteOne i fs)) = None"
proof -
  from assms have "i \<notin> set (map doc_id (remove_first (ById i) fs))"
    unfolding wf_collection_def by (rule remove_first_clears)
  then have "List.find (matches (ById i)) (remove_first (ById i) fs) = None"
    by (rule iffD2 [OF find_by_id_None])
  then show ?thesis
    by (simp add: findOne_def find_one_doc_def deleteOne_def delete_one_doc_def)
qed

theorem deleteOne_then_findOne_witness:
  "wf_collection [sample_friendship 10 1 2 100, sample_friendship 11 2 3 200] \<and>
   findOne 10 [sample_friendship 10 1 2 100, sample_friendship 11 2 3 200] =
     Some (sample_friendship 10 1 2 100) \<and>
   findOne 10 (snd (deleteOne 10 [sample_friendship 10 1 2 100, sample_friendship 11 2 3 200])) = None"
proof -
  have h: "wf_collection [sample_friendship 10 1 2 100, sample_friendship 11 2 3 200]"
    by (simp add: wf_collection_def sample_friendship_def)
  show ?thesis
    using h deleteOne_then_findOne [OF h, of 10]
    by (simp add: findOne_def find_one_doc_def sample_friendship_def)
qed

text \<open>
  C8. When the user accessor resolves the name to a user \<open>u\<close>,
  \<open>deleteAllFriendshipOfUser\<close> followed by \<open>findAllFriendshipsOfUser\<close> for the same
  name returns the empty list: the collection left behind holds exactly the documents
  in which the identifier of \<open>u\<close> is neither party.
\<close>

theorem deleteAll_then_findAllOfUser:
  assumes "findOneByUsername us name = Inr u"
  shows "\<exists>fs'. deleteAllFriendshipOfUser us name fs = Inr fs' \<and>
           findAllFriendshipsOfUser us name fs' = Inr [] \<and>
           (\<forall>d. (d \<in> set fs') =
                (d \<in> set fs \<and> userOneId d \<noteq> user_id u \<and> userTwoId d \<noteq> user_id u))"
  using assms
  by (auto simp: deleteAll_resolved findAllOfUser_resolved filter_empty_conv)

theorem deleteAll_then_findAllOfUser_witness:
  "findOneByUsername sample_users ''alice'' = Inr alice \<and>
   deleteAllFriendshipOfUser sample_users ''alice''
     [sample_friendship 10 1 2 100, sample_friendship 11 2 3 200, sample_friendship 12 3 1 300]
     = Inr [sample_friendship 11 2 3 200] \<and>
   findAllFriendshipsOfUser sample_users ''alice'' [sample_friendship 11 2 3 200] = Inr []"
proof -
  have h: "findOneByUsername sample_users ''alice'' = Inr alice"
    by (simp add: sample_users_def)
  show ?thesis
    using h deleteAll_then_findAllOfUser [OF h,
      of "[sample_friendship 10 1 2 100, sample_friendship 11 2 3 200, sample_friendship 12 3 1 300]"]
    by (simp add: deleteAll_resolved findAllOfUser_resolved sample_friendship_def alice_def)
qed

text \<open>
  C9. \<open>addOne\<close> does not look for an existing friendship of the pair: when the
  collection already holds a document \<open>d\<close> between \<open>a\<close> and \<open>b\<close>, in either
  order, \<open>addOne\<close> still succeeds and inserts one more document, and \<open>d\<close> stays.
  The only hypothesis on the call is that the identifier given to the new document is
  not yet in the collection.
\<close>

theorem addOne_no_duplicate_check:
  assumes "newId \<notin> set (map doc_id fs)"
    and "d \<in> set fs"
    and "(userOneId d = a \<and> userTwoId d = b) \<or> (userOneId d = b \<and> userTwoId d = a)"
  shows "\<exists>p fs'. addOne us now newId a b fs = Inr (p, fs') \<and>
           fs' = fs @ [\<lparr>doc_id = newId, userOneId = a, userTwoId = b, dateCreated = Some now\<rparr>] \<and>
           d \<in> set fs' \<and> length fs' = Suc (length fs)"
  using assms by (simp add: addOne_fresh)

theorem addOne_no_duplicate_check_witness:
  "(12::nat) \<notin> set (map doc_id [sample_friendship 10 2 1 100]) \<and>
   userOneId (sample_friendship 10 2 1 100) = 2 \<and> userTwoId (sample_friendship 10 2 1 100) = 1 \<and>
   (\<exists>p. addOne sample_users 250 12 1 2 [sample_friendship 10 2 1 100] =
      Inr (p, [sample_friendship 10 2 1 100, sample_friendship 12 1 2 250])) \<and>
   (\<exists>p. addOne sample_users 260 13 1 2 [sample_friendship 10 2 1 100, sample_friendship 12 1 2 250] =
      Inr (p, [sample_friendship 10 2 1 100, sample_friendship 12 1 2 250,
               sample_friendship 13 1 2 260]))"
proof -
  have h1: "(12::nat) \<notin> set (map doc_id [sample_friendship 10 2 1 100])"
    by (simp add: sample_friendship_def)
  have h2: "sample_friendship 10 2 1 100 \<in> set [sample_friendship 10 2 1 100]"
    by simp
  have h3: "(userOneId (sample_friendship 10 2 1 100) = 1 \<and> userTwoId (sample_friendship 10 2 1 100) = 2)
     \<or> (userOneId (sample_friendship 10 2 1 100) = 2 \<and> userTwoId (sample_friendship 10 2 1 100) = 1)"
    by (simp add: sample_friendship_def)
  show ?thesis
    using h1 addOne_no_duplicate_check [OF h1 h2 h3, of sample_users 250]
    by (simp add: addOne_fresh sample_friendship_def)
qed

text \<open>
  C10. The two deletes of \<open>deleteAllFriendshipOfUser\<close>, first by \<open>userOneId\<close> and
  then by \<open>userTwoId\<close>, leave the same collection as one delete with the filter
  \<open>{$or: [{userOneId}, {userTwoId}]}\<close>, for every collection and every name. Both
  fail exactly when the name does not resolve.
\<close>

theorem deleteAll_two_steps_eq_single:
  "deleteAllFriendshipOfUser us name fs = deleteAllFriendshipOfUser_single us name fs \<and>
   isl (deleteAllFriendshipOfUser us name fs) = isl (findOneByUsername us name)"
  by (cases "findOneByUsername us name")
    (simp_all add: deleteAllFriendshipOfUser_def deleteAllFriendshipOfUser_single_def
      delete_many_docs_def matches_either conj_commute)

end
